theory Spec2Isabelle
  imports Complex_Main "HOL-Library.Word"
begin

unbundle bit_operations_syntax

section \<open>Triac power regulator: integer types of the target\<close>

text \<open>
  The firmware is written for an 8-bit AVR (the sources include \<^verbatim>\<open>avr/io.h\<close> and use
  the Timer0, ADC and INT0 vectors of an ATtiny). With avr-gcc an \<^verbatim>\<open>unsigned\<close> and an
  \<^verbatim>\<open>int\<close> have 16 bits, an \<^verbatim>\<open>unsigned long\<close> has 32 bits and a \<^verbatim>\<open>char\<close> and every
  I/O register have 8 bits. Words carry the bit pattern; unsigned arithmetic wraps
  around. A \<^verbatim>\<open>char\<close> is kept as its bit pattern, which is all that reaches the 8-bit
  compare register.
\<close>

type_synonym unsigned = "16 word"
type_synonym ulong = "32 word"
type_synonym char8 = "8 word"
type_synonym reg8 = "8 word"

section \<open>Constants of \<^verbatim>\<open>functions.h\<close>\<close>

definition UPPER_THRESHOLD_VALUE :: nat where
  "UPPER_THRESHOLD_VALUE = 941"

definition LOWER_THRESHOLD_VALUE :: nat where
  "LOWER_THRESHOLD_VALUE = 220"

definition MAX_ADC_VALUE :: nat where
  "MAX_ADC_VALUE = 1023"

definition MIN_ADC_VALUE :: nat where
  "MIN_ADC_VALUE = 205"

definition ADC_RANGE_VALUE :: nat where
  "ADC_RANGE_VALUE = MAX_ADC_VALUE - MIN_ADC_VALUE"

definition ZERO_CROSS_DELAY_US :: nat where
  "ZERO_CROSS_DELAY_US = 1000"

definition ZERO_CROSS_DELAY_OCR0A_PRESC_64 :: nat where
  "ZERO_CROSS_DELAY_OCR0A_PRESC_64 = 74"

definition TRIGGER_PULSE_DURATION_PRESC_8 :: nat where
  "TRIGGER_PULSE_DURATION_PRESC_8 = 149"

definition HALF_PERIOD_DURATION_US :: nat where
  "HALF_PERIOD_DURATION_US = 10000"

section \<open>The numeric conversions of \<^verbatim>\<open>functions.c\<close>\<close>

text \<open>
  \<^verbatim>\<open>CalculateADCValue\<close>: the two comparisons are strict, and the linear branch is
  computed in \<^verbatim>\<open>unsigned long\<close> and cast back to \<^verbatim>\<open>unsigned\<close>.
\<close>

definition CalculateADCValue :: "unsigned \<Rightarrow> unsigned" where
  "CalculateADCValue ADCValue =
     (if ADCValue > of_nat UPPER_THRESHOLD_VALUE then 100
      else if ADCValue < of_nat LOWER_THRESHOLD_VALUE then 0
      else (let a = ((ucast ADCValue :: ulong) - of_nat MIN_ADC_VALUE) * 100
                      div of_nat ADC_RANGE_VALUE
            in (ucast a :: unsigned)))"

text \<open>
  \<^verbatim>\<open>CalculateRegisterValue\<close>: the local \<^verbatim>\<open>unsigned long a\<close> is given a name of its own,
  so that the value before the cast to \<^verbatim>\<open>char\<close> can be talked about. The source divides
  by the prescaler without a check; every call in the repository passes 8, 64 or 256.
\<close>

definition CalculateRegisterValue_a :: "unsigned \<Rightarrow> unsigned \<Rightarrow> ulong" where
  "CalculateRegisterValue_a prescaler time =
     (48 * (ucast time :: ulong) div 10 div (ucast prescaler :: ulong)) - 1"

definition CalculateRegisterValue :: "unsigned \<Rightarrow> unsigned \<Rightarrow> char8" where
  "CalculateRegisterValue prescaler time =
     (ucast (CalculateRegisterValue_a prescaler time) :: char8)"

text \<open>
  The delay of \<^verbatim>\<open>SetWaitingPulse\<close> (its local \<^verbatim>\<open>timeDelay\<close>), computed in 16-bit
  \<^verbatim>\<open>unsigned\<close> arithmetic.
\<close>

definition timeDelay :: "unsigned \<Rightarrow> unsigned" where
  "timeDelay percent =
     of_nat HALF_PERIOD_DURATION_US
       - (((of_nat HALF_PERIOD_DURATION_US div 100) * percent) + of_nat ZERO_CROSS_DELAY_US)"

section \<open>The microcontroller state\<close>

text \<open>
  The bit numbers \<^verbatim>\<open>PB0\<close>, \<^verbatim>\<open>CS00\<close>, \<^verbatim>\<open>CS01\<close>, \<^verbatim>\<open>CS02\<close>, \<^verbatim>\<open>OCIE0A\<close>, \<^verbatim>\<open>OCF0A\<close> and \<^verbatim>\<open>ADSC\<close>
  come from the device header behind \<^verbatim>\<open>avr/io.h\<close>, which is not part of the
  repository. They are a parameter of the model; \<open>attiny13_bits\<close> is the assignment of
  the ATtiny13 data sheet, used for concrete evaluations only.
\<close>

record io_bits =
  PB0 :: nat
  CS00 :: nat
  CS01 :: nat
  CS02 :: nat
  OCIE0A :: nat
  OCF0A :: nat
  ADSC :: nat

definition attiny13_bits :: io_bits where
  "attiny13_bits = \<lparr>PB0 = 0, CS00 = 0, CS01 = 1, CS02 = 2, OCIE0A = 2, OCF0A = 2, ADSC = 6\<rparr>"

definition io_bits_ok :: "io_bits \<Rightarrow> bool" where
  "io_bits_ok io =
     (PB0 io < 8 \<and> CS00 io < 8 \<and> CS01 io < 8 \<and> CS02 io < 8 \<and> OCIE0A io < 8
      \<and> CS00 io \<noteq> CS01 io \<and> CS00 io \<noteq> CS02 io \<and> CS01 io \<noteq> CS02 io)"

text \<open>The enumeration \<^verbatim>\<open>controller_states\<close> of \<^verbatim>\<open>functions.h\<close>.\<close>

datatype controller_states = WAITING_FOR_TRIGGER | SWITCHING

text \<open>
  The interrupt handlers communicate through the I/O registers and the two globals of
  \<^verbatim>\<open>main.c\<close>. A register is the byte last written to it or delivered by the
  peripheral; \<open>TCNT0\<close>, \<open>ADCL\<close> and \<open>ADCH\<close> are only read by the code and hold what
  the peripheral shows at the moment of the read. \<open>ADCResult\<close> (a 16-bit \<^verbatim>\<open>int\<close>) is
  kept as its bit pattern. \<open>adc_reads\<close> is a trace of the volatile reads of the ADC data
  registers, in program order.
\<close>

datatype adc_data_reg = Reg_ADCL | Reg_ADCH

record mcu =
  PORTB :: reg8
  TCCR0B :: reg8
  TIMSK0 :: reg8
  TIFR0 :: reg8
  OCR0A :: reg8
  TCNT0 :: reg8
  ADCSRA :: reg8
  ADCL :: reg8
  ADCH :: reg8
  ADCResult :: "16 word"
  state :: controller_states
  adc_reads :: "adc_data_reg list"

subsection \<open>The macros of \<^verbatim>\<open>functions.h\<close>\<close>

definition OPTOTRIAC_OFF :: "io_bits \<Rightarrow> mcu \<Rightarrow> mcu" where
  "OPTOTRIAC_OFF io s = s\<lparr>PORTB := PORTB s AND NOT (push_bit (PB0 io) 1)\<rparr>"

definition OPTOTRIAC_ON :: "io_bits \<Rightarrow> mcu \<Rightarrow> mcu" where
  "OPTOTRIAC_ON io s = s\<lparr>PORTB := PORTB s OR push_bit (PB0 io) 1\<rparr>"

definition TIMER_STOP :: "io_bits \<Rightarrow> mcu \<Rightarrow> mcu" where
  "TIMER_STOP io s =
     s\<lparr>TCCR0B := TCCR0B s AND
          NOT (push_bit (CS00 io) 1 OR push_bit (CS01 io) 1 OR push_bit (CS02 io) 1)\<rparr>"

definition TIMER_INT_OFF :: "io_bits \<Rightarrow> mcu \<Rightarrow> mcu" where
  "TIMER_INT_OFF io s = s\<lparr>TIMSK0 := TIMSK0 s AND NOT (push_bit (OCIE0A io) 1)\<rparr>"

subsection \<open>The run-time functions of \<^verbatim>\<open>functions.c\<close>\<close>

definition ADCStart :: "io_bits \<Rightarrow> mcu \<Rightarrow> mcu" where
  "ADCStart io s = s\<lparr>ADCSRA := ADCSRA s OR push_bit (ADSC io) 1\<rparr>"

text \<open>
  \<^verbatim>\<open>SetTimer\<close>: the \<^verbatim>\<open>switch\<close> has the cases 8, 64 and 256 and no default, so any other
  prescaler leaves the clock stopped. \<^verbatim>\<open>OCR0A = TCNT0 + OCValue\<close> is stored in an 8-bit
  register, so the sum is taken modulo 256.
\<close>

definition SetTimer :: "io_bits \<Rightarrow> unsigned \<Rightarrow> char8 \<Rightarrow> mcu \<Rightarrow> mcu" where
  "SetTimer io prescaler OCValue s =
     (let s1 = TIMER_INT_OFF io s;
          s2 = TIMER_STOP io s1;
          s3 = (if prescaler = 8 then s2\<lparr>TCCR0B := TCCR0B s2 OR push_bit (CS01 io) 1\<rparr>
                else if prescaler = 64
                  then s2\<lparr>TCCR0B := TCCR0B s2 OR (push_bit (CS00 io) 1 OR push_bit (CS01 io) 1)\<rparr>
                else if prescaler = 256 then s2\<lparr>TCCR0B := TCCR0B s2 OR push_bit (CS02 io) 1\<rparr>
                else s2);
          s4 = s3\<lparr>TIFR0 := TIFR0 s3 OR push_bit (OCF0A io) 1\<rparr>;
          s5 = s4\<lparr>OCR0A := TCNT0 s4 + OCValue\<rparr>
      in s5\<lparr>TIMSK0 := TIMSK0 s5 OR push_bit (OCIE0A io) 1\<rparr>)"

definition SetWaitingPulse :: "io_bits \<Rightarrow> unsigned \<Rightarrow> mcu \<Rightarrow> mcu" where
  "SetWaitingPulse io percent s =
     (if percent = 100 then SetTimer io 64 (of_nat ZERO_CROSS_DELAY_OCR0A_PRESC_64) s
      else if percent = 0 then TIMER_STOP io (TIMER_INT_OFF io s)
      else (let td = timeDelay percent
            in if td < 425 then SetTimer io 8 (CalculateRegisterValue 8 td) s
               else if td < 3400 then SetTimer io 64 (CalculateRegisterValue 64 td) s
               else SetTimer io 256 (CalculateRegisterValue 256 td) s))"

subsection \<open>The interrupt handlers of \<^verbatim>\<open>main.c\<close>\<close>

definition ISR_INT0 :: "io_bits \<Rightarrow> mcu \<Rightarrow> mcu" where
  "ISR_INT0 io s =
     (let s1 = OPTOTRIAC_OFF io s;
          s2 = SetWaitingPulse io (CalculateADCValue (ADCResult s1)) s1;
          s3 = s2\<lparr>state := WAITING_FOR_TRIGGER\<rparr>
      in ADCStart io s3)"

definition read_ADCL :: "mcu \<Rightarrow> reg8 \<times> mcu" where
  "read_ADCL s = (ADCL s, s\<lparr>adc_reads := adc_reads s @ [Reg_ADCL]\<rparr>)"

definition read_ADCH :: "mcu \<Rightarrow> reg8 \<times> mcu" where
  "read_ADCH s = (ADCH s, s\<lparr>adc_reads := adc_reads s @ [Reg_ADCH]\<rparr>)"

text \<open>
  \<^verbatim>\<open>ISR(ADC_vect)\<close>: the first statement reads \<^verbatim>\<open>ADCL\<close> into the local, the second reads
  \<^verbatim>\<open>ADCH\<close>, shifts it by 8 and adds the local, in 16-bit \<^verbatim>\<open>int\<close> arithmetic.
\<close>

definition ISR_ADC :: "mcu \<Rightarrow> mcu" where
  "ISR_ADC s =
     (let (l, s1) = read_ADCL s;
          ADCTempResult = (ucast l :: 16 word);
          (h, s2) = read_ADCH s1
      in s2\<lparr>ADCResult := push_bit 8 (ucast h :: 16 word) + ADCTempResult\<rparr>)"

definition ISR_TIM0_COMPA :: "io_bits \<Rightarrow> mcu \<Rightarrow> mcu" where
  "ISR_TIM0_COMPA io s =
     (if state s = WAITING_FOR_TRIGGER
      then (let s1 = OPTOTRIAC_ON io s;
                s2 = s1\<lparr>state := SWITCHING\<rparr>
            in SetTimer io 8 149 s2)
      else if state s = SWITCHING then OPTOTRIAC_OFF io s
      else s)"

subsection \<open>What the hardware sees\<close>

text \<open>
  The output line is bit \<^verbatim>\<open>PB0\<close> of \<open>PORTB\<close>; the timer's clock is selected by the bits
  \<^verbatim>\<open>CS02 CS01 CS00\<close> of \<open>TCCR0B\<close> (by the comments of \<^verbatim>\<open>SetTimer\<close>: \<^verbatim>\<open>0 1 0\<close> is
  prescaler 8, \<^verbatim>\<open>0 1 1\<close> is 64, \<^verbatim>\<open>1 0 0\<close> is 256, and all clear is a stopped timer); the
  compare interrupt is enabled by bit \<^verbatim>\<open>OCIE0A\<close> of \<open>TIMSK0\<close>.
\<close>

definition optotriac_on :: "io_bits \<Rightarrow> mcu \<Rightarrow> bool" where
  "optotriac_on io s = bit (PORTB s) (PB0 io)"

definition clock_select :: "io_bits \<Rightarrow> mcu \<Rightarrow> bool \<times> bool \<times> bool" where
  "clock_select io s =
     (bit (TCCR0B s) (CS02 io), bit (TCCR0B s) (CS01 io), bit (TCCR0B s) (CS00 io))"

definition timer_int_enabled :: "io_bits \<Rightarrow> mcu \<Rightarrow> bool" where
  "timer_int_enabled io s = bit (TIMSK0 s) (OCIE0A io)"

text \<open>A concrete state, as after reset with one conversion result latched.\<close>

definition mcu0 :: mcu where
  "mcu0 = \<lparr>PORTB = 0, TCCR0B = 0, TIMSK0 = 0, TIFR0 = 0, OCR0A = 0, TCNT0 = 7, ADCSRA = 0,
           ADCL = 102, ADCH = 2, ADCResult = 614, state = WAITING_FOR_TRIGGER,
           adc_reads = []\<rparr>"

text \<open>The state one timer expiry later: the output is driven and the pulse timer runs.\<close>

definition mcu1 :: mcu where
  "mcu1 = \<lparr>PORTB = 1, TCCR0B = 2, TIMSK0 = 4, TIFR0 = 4, OCR0A = 156, TCNT0 = 156, ADCSRA = 0,
           ADCL = 102, ADCH = 2, ADCResult = 614, state = SWITCHING, adc_reads = []\<rparr>"

section \<open>The compare-count formula of the specification\<close>

text \<open>
  The specification's formula for the register value, in its own words:
  \<open>floor(clockFrequencyHz * durationSeconds / clockDivisor) - 1\<close> with a clock of
  4800000 Hz and the duration given in microseconds. It is the reference the source
  function \<open>CalculateRegisterValue\<close> is compared with, and is not used by the model of
  the code.
\<close>

definition compare_count_formula :: "nat \<Rightarrow> nat \<Rightarrow> int" where
  "compare_count_formula divisor duration_us =
     \<lfloor>4800000 * (real duration_us / 1000000) / real divisor\<rfloor> - 1"

section \<open>Auxiliary facts\<close>

lemmas functions_h_defs =
  UPPER_THRESHOLD_VALUE_def LOWER_THRESHOLD_VALUE_def MAX_ADC_VALUE_def
  MIN_ADC_VALUE_def ADC_RANGE_VALUE_def ZERO_CROSS_DELAY_US_def
  ZERO_CROSS_DELAY_OCR0A_PRESC_64_def TRIGGER_PULSE_DURATION_PRESC_8_def
  HALF_PERIOD_DURATION_US_def

lemma uint_ucast_16_32: "uint (ucast (w :: 16 word) :: 32 word) = uint w"
  by (simp add: uint_up_ucast is_up)

subsection \<open>The three branches of \<^verbatim>\<open>CalculateADCValue\<close>\<close>

lemma CalculateADCValue_low: "uint raw < 220 \<Longrightarrow> CalculateADCValue raw = 0"
  unfolding CalculateADCValue_def functions_h_defs
  by (simp add: word_less_def)

lemma CalculateADCValue_high: "941 < uint raw \<Longrightarrow> CalculateADCValue raw = 100"
  unfolding CalculateADCValue_def functions_h_defs
  by (simp add: word_less_def)

lemma CalculateADCValue_linear:
  "220 \<le> uint raw \<Longrightarrow> uint raw \<le> 941 \<Longrightarrow>
   uint (CalculateADCValue raw) = (uint raw - 205) * 100 div 818"
  unfolding CalculateADCValue_def functions_h_defs Let_def
  by (simp add: word_less_def word_le_def uint_word_ariths uint_div uint_ucast_16_32
      unsigned_ucast_eq take_bit_eq_mod)

lemma CalculateADCValue_linear_le_89:
  assumes "220 \<le> uint raw" "uint raw \<le> 941"
  shows "uint (CalculateADCValue raw) \<le> 89"
proof -
  have "(uint raw - 205) * 100 \<le> 73600" using assms by simp
  then have "(uint raw - 205) * 100 div 818 \<le> 73600 div 818" by (rule zdiv_mono1) simp
  then show ?thesis using assms by (simp add: CalculateADCValue_linear)
qed

lemma CalculateADCValue_cases:
  "uint (CalculateADCValue raw) \<le> 89 \<or> CalculateADCValue raw = 100"
proof (cases "941 < uint raw")
  case True
  then show ?thesis by (simp add: CalculateADCValue_high)
next
  case upper: False
  show ?thesis
  proof (cases "uint raw < 220")
    case True
    then show ?thesis by (simp add: CalculateADCValue_low)
  next
    case False
    with upper show ?thesis by (simp add: CalculateADCValue_linear_le_89)
  qed
qed

lemma CalculateADCValue_le_100: "uint (CalculateADCValue raw) \<le> 100"
  using CalculateADCValue_cases [of raw] by auto

lemma CalculateADCValue_mono_uint:
  assumes "uint a \<le> uint b"
  shows "uint (CalculateADCValue a) \<le> uint (CalculateADCValue b)"
proof (cases "941 < uint b")
  case True
  then show ?thesis using CalculateADCValue_le_100 [of a] by (simp add: CalculateADCValue_high)
next
  case hb: False
  show ?thesis
  proof (cases "uint a < 220")
    case True
    then show ?thesis by (simp add: CalculateADCValue_low)
  next
    case False
    then have la: "220 \<le> uint a" "uint a \<le> 941" and lb: "220 \<le> uint b" "uint b \<le> 941"
      using assms hb by simp_all
    have "(uint a - 205) * 100 \<le> (uint b - 205) * 100" using assms by simp
    then have "(uint a - 205) * 100 div 818 \<le> (uint b - 205) * 100 div 818"
      by (rule zdiv_mono1) simp
    then show ?thesis by (simp add: CalculateADCValue_linear la lb)
  qed
qed

subsection \<open>\<^verbatim>\<open>CalculateRegisterValue\<close> as integer arithmetic\<close>

lemma compare_count_formula_div:
  "compare_count_formula d t = (48 * int t) div (10 * int d) - 1"
proof -
  have "4800000 * (real t / 1000000) / real d
          = real_of_int (48 * int t) / real_of_int (10 * int d)"
    by (simp add: field_simps)
  then show ?thesis
    unfolding compare_count_formula_def by (simp only: floor_divide_of_int_eq)
qed

lemma uint_CalculateRegisterValue_a:
  "uint (CalculateRegisterValue_a d t) = (48 * uint t div 10 div uint d - 1) mod 2 ^ 32"
proof -
  define x :: ulong where "x = 48 * ucast t"
  define q :: ulong where "q = x div 10 div ucast d"
  have "uint t < 2 ^ 16" using uint_lt2p [of t] by simp
  then have x: "uint x = 48 * uint t"
    unfolding x_def by (simp add: uint_word_ariths uint_ucast_16_32)
  have q: "uint q = uint x div 10 div uint d"
    unfolding q_def by (simp add: uint_div uint_ucast_16_32)
  have "CalculateRegisterValue_a d t = q - 1"
    unfolding CalculateRegisterValue_a_def q_def x_def by (rule refl)
  then have "uint (CalculateRegisterValue_a d t) = (uint q - 1) mod 2 ^ 32"
    by (simp add: uint_word_ariths)
  then show ?thesis by (simp only: q x)
qed

lemma uint_CalculateRegisterValue:
  "uint (CalculateRegisterValue d t) = (48 * uint t div 10 div uint d - 1) mod 256"
proof -
  have "uint (CalculateRegisterValue d t) = uint (CalculateRegisterValue_a d t) mod 2 ^ 8"
    unfolding CalculateRegisterValue_def by (simp add: unsigned_ucast_eq take_bit_eq_mod)
  also have "\<dots> = (48 * uint t div 10 div uint d - 1) mod 2 ^ 32 mod 2 ^ 8"
    by (simp only: uint_CalculateRegisterValue_a)
  also have "\<dots> = (48 * uint t div 10 div uint d - 1) mod 2 ^ 8"
    by (rule mod_mod_cancel) simp
  finally show ?thesis by simp
qed

lemma compare_count_formula_uint:
  "compare_count_formula (unat d) (unat t) = 48 * uint t div 10 div uint d - 1"
  by (simp only: compare_count_formula_div uint_nat [symmetric]) (simp add: zdiv_zmult2_eq)

lemma CalculateRegisterValue_exact:
  assumes "1 \<le> 48 * uint t div 10 div uint d" and "48 * uint t div 10 div uint d \<le> 256"
  shows "uint (CalculateRegisterValue_a d t) = 48 * uint t div 10 div uint d - 1"
    and "uint (CalculateRegisterValue d t) = 48 * uint t div 10 div uint d - 1"
proof -
  define q where "q = 48 * uint t div 10 div uint d"
  have q: "0 \<le> q - 1" "q - 1 < 256" "q - 1 < 2 ^ 32"
    using assms unfolding q_def by simp_all
  have "(q - 1) mod 2 ^ 32 = q - 1" using q(1) q(3) by (rule mod_pos_pos_trivial)
  then show "uint (CalculateRegisterValue_a d t) = 48 * uint t div 10 div uint d - 1"
    by (simp only: uint_CalculateRegisterValue_a q_def)
  have "(q - 1) mod 256 = q - 1" using q(1) q(2) by (rule mod_pos_pos_trivial)
  then show "uint (CalculateRegisterValue d t) = 48 * uint t div 10 div uint d - 1"
    by (simp only: uint_CalculateRegisterValue q_def)
qed

subsection \<open>The delay of \<^verbatim>\<open>SetWaitingPulse\<close>\<close>

lemma uint_timeDelay:
  assumes "uint p \<le> 90"
  shows "uint (timeDelay p) = 10000 - ((10000 div 100) * uint p + 1000)"
proof -
  have "0 \<le> 9000 - 100 * uint p" and "9000 - 100 * uint p < 65536"
    using assms uint_ge_0 [of p] by linarith+
  then have "(9000 - 100 * uint p) mod 65536 = 9000 - 100 * uint p"
    by (rule mod_pos_pos_trivial)
  then show ?thesis
    unfolding timeDelay_def functions_h_defs
    by (simp add: uint_word_ariths uint_div)
qed

lemma quot_bounds:
  fixes x :: int
  assumes "0 < D" "lo \<le> x" "x \<le> hi"
  shows "48 * lo div 10 div D \<le> 48 * x div 10 div D"
    and "48 * x div 10 div D \<le> 48 * hi div 10 div D"
  using assms by (auto intro!: zdiv_mono1)

lemma quot_presc_8:
  "100 \<le> (x::int) \<Longrightarrow> x < 425 \<Longrightarrow>
   1 \<le> 48 * x div 10 div 8 \<and> 48 * x div 10 div 8 \<le> 256"
  using quot_bounds [of 8 100 x 424] by simp

lemma quot_presc_64:
  "425 \<le> (x::int) \<Longrightarrow> x < 3400 \<Longrightarrow>
   1 \<le> 48 * x div 10 div 64 \<and> 48 * x div 10 div 64 \<le> 256"
  using quot_bounds [of 64 425 x 3399] by simp

lemma quot_presc_256:
  "3400 \<le> (x::int) \<Longrightarrow> x \<le> 8900 \<Longrightarrow>
   1 \<le> 48 * x div 10 div 256 \<and> 48 * x div 10 div 256 \<le> 256"
  using quot_bounds [of 256 3400 x 8900] by simp

lemma SetWaitingPulse_general:
  "percent \<noteq> 100 \<Longrightarrow> percent \<noteq> 0 \<Longrightarrow>
   SetWaitingPulse io percent s =
     (let td = timeDelay percent;
          prescaler = (if td < 425 then 8 else if td < 3400 then 64 else 256)
      in SetTimer io prescaler (CalculateRegisterValue prescaler td) s)"
  by (simp add: SetWaitingPulse_def Let_def)

subsection \<open>The compare value of the general branch\<close>

lemma compare_in_range:
  assumes "1 \<le> uint p" "uint p \<le> 89"
  defines "td \<equiv> timeDelay p"
  defines "d \<equiv> (if td < 425 then 8 else if td < 3400 then 64 else 256 :: unsigned)"
  shows "uint (CalculateRegisterValue_a d td) \<le> 255"
    and "uint (CalculateRegisterValue d td) = uint (CalculateRegisterValue_a d td)"
    and "uint (CalculateRegisterValue d td) = compare_count_formula (unat d) (unat td)"
proof -
  have td: "uint td = 9000 - 100 * uint p"
    unfolding td_def using assms(2) by (simp add: uint_timeDelay)
  then have rng: "100 \<le> uint td" "uint td \<le> 8900" using assms(1,2) by simp_all
  have q: "1 \<le> 48 * uint td div 10 div uint d \<and> 48 * uint td div 10 div uint d \<le> 256"
  proof (cases "td < 425")
    case True
    then show ?thesis using rng quot_presc_8 [of "uint td"] by (simp add: d_def word_less_def)
  next
    case a: False
    show ?thesis
    proof (cases "td < 3400")
      case True
      with a show ?thesis using rng quot_presc_64 [of "uint td"]
        by (simp add: d_def word_less_def)
    next
      case False
      with a show ?thesis using rng quot_presc_256 [of "uint td"]
        by (simp add: d_def word_less_def)
    qed
  qed
  then have q1: "1 \<le> 48 * uint td div 10 div uint d" and q2: "48 * uint td div 10 div uint d \<le> 256"
    by simp_all
  note ex = CalculateRegisterValue_exact [OF q1 q2]
  show "uint (CalculateRegisterValue_a d td) \<le> 255" using q2 ex(1) by linarith
  show "uint (CalculateRegisterValue d td) = uint (CalculateRegisterValue_a d td)"
    by (simp only: ex)
  show "uint (CalculateRegisterValue d td) = compare_count_formula (unat d) (unat td)"
    by (simp only: ex compare_count_formula_uint)
qed


subsection \<open>Register effects of the macros and of \<^verbatim>\<open>SetTimer\<close>\<close>

lemma bit_exp_reg8:
  "bit (2 ^ n :: reg8) m \<longleftrightarrow> m = n \<and> n < 8"
  by (auto simp: bit_exp_iff possible_bit_word)

lemma OPTOTRIAC_OFF_off: "\<not> optotriac_on io (OPTOTRIAC_OFF io s)"
  by (simp add: optotriac_on_def OPTOTRIAC_OFF_def bit_and_iff bit_not_iff bit_exp_reg8 bit_imp_possible_bit possible_bit_word)

lemma OPTOTRIAC_ON_on: "PB0 io < 8 \<Longrightarrow> optotriac_on io (OPTOTRIAC_ON io s)"
  by (simp add: optotriac_on_def OPTOTRIAC_ON_def bit_or_iff bit_exp_reg8)

lemma SetTimer_frame:
  "PORTB (SetTimer io p v s) = PORTB s"
  "state (SetTimer io p v s) = state s"
  "ADCResult (SetTimer io p v s) = ADCResult s"
  "ADCSRA (SetTimer io p v s) = ADCSRA s"
  "TCNT0 (SetTimer io p v s) = TCNT0 s"
  "ADCL (SetTimer io p v s) = ADCL s"
  "ADCH (SetTimer io p v s) = ADCH s"
  "adc_reads (SetTimer io p v s) = adc_reads s"
  by (simp_all add: SetTimer_def TIMER_STOP_def TIMER_INT_OFF_def Let_def)

lemma SetTimer_OCR0A: "OCR0A (SetTimer io p v s) = TCNT0 s + v"
  by (simp add: SetTimer_def TIMER_STOP_def TIMER_INT_OFF_def Let_def)

lemma SetTimer_int_enabled: "OCIE0A io < 8 \<Longrightarrow> timer_int_enabled io (SetTimer io p v s)"
  by (simp add: timer_int_enabled_def SetTimer_def TIMER_STOP_def TIMER_INT_OFF_def Let_def
      bit_or_iff bit_exp_reg8)

lemma TIMER_STOP_clock_select: "clock_select io (TIMER_STOP io s) = (False, False, False)"
  by (simp add: clock_select_def TIMER_STOP_def bit_and_iff bit_not_iff bit_or_iff
      bit_exp_reg8 bit_imp_possible_bit possible_bit_word)

lemma SetTimer_clock_select:
  assumes "io_bits_ok io"
  shows "clock_select io (SetTimer io 8 v s) = (False, True, False)"
    and "clock_select io (SetTimer io 64 v s) = (False, True, True)"
    and "clock_select io (SetTimer io 256 v s) = (True, False, False)"
  using assms
  by (auto simp: io_bits_ok_def clock_select_def SetTimer_def TIMER_STOP_def TIMER_INT_OFF_def
      Let_def bit_and_iff bit_not_iff bit_or_iff bit_exp_reg8)

lemma unat_ADC_assemble:
  "unat (push_bit 8 (ucast (h :: reg8) :: 16 word) + ucast (l :: reg8)) = 256 * unat h + unat l"
proof -
  have h: "unat h < 256" using unsigned_less [of h] by simp
  have l: "unat l < 256" using unsigned_less [of l] by simp
  have uh: "unat (ucast h :: 16 word) = unat h" and ul: "unat (ucast l :: 16 word) = unat l"
    using h l by (simp_all add: unsigned_ucast_eq take_bit_nat_eq_self)
  have "unat (push_bit 8 (ucast h :: 16 word)) = 256 * unat h"
    using h by (simp add: push_bit_eq_mult unat_word_ariths uh)
  then show ?thesis using h l by (simp add: unat_word_ariths ul)
qed

lemma SetWaitingPulse_frame:
  "PORTB (SetWaitingPulse io p s) = PORTB s"
  "state (SetWaitingPulse io p s) = state s"
  "ADCResult (SetWaitingPulse io p s) = ADCResult s"
  "ADCSRA (SetWaitingPulse io p s) = ADCSRA s"
  "adc_reads (SetWaitingPulse io p s) = adc_reads s"
  by (simp_all add: SetWaitingPulse_def SetTimer_frame TIMER_STOP_def TIMER_INT_OFF_def Let_def)

lemma ISR_INT0_output_state:
  "\<not> optotriac_on io (ISR_INT0 io s)" "state (ISR_INT0 io s) = WAITING_FOR_TRIGGER"
  using OPTOTRIAC_OFF_off [of io s]
  by (simp_all add: ISR_INT0_def ADCStart_def Let_def optotriac_on_def SetWaitingPulse_frame)

subsection \<open>The percentages the zero-cross handler passes on\<close>

text \<open>
  \<^verbatim>\<open>ISR(INT0_vect)\<close> calls \<open>SetWaitingPulse\<close> with the result of \<open>CalculateADCValue\<close>
  only. Whatever the latched sample is, that result is 0, 100 or between 1 and 89.
\<close>

lemma CalculateADCValue_percent_range:
  "CalculateADCValue raw = 0 \<or> CalculateADCValue raw = 100
   \<or> (1 \<le> CalculateADCValue raw \<and> CalculateADCValue raw \<le> 89)"
proof (cases "CalculateADCValue raw = 0")
  case True
  then show ?thesis by simp
next
  case False
  then have "uint (CalculateADCValue raw) \<noteq> 0" by (simp add: uint_0_iff)
  then have "1 \<le> uint (CalculateADCValue raw)"
    using uint_ge_0 [of "CalculateADCValue raw"] by linarith
  then have "1 \<le> CalculateADCValue raw" by (simp add: word_le_def)
  then show ?thesis
    using CalculateADCValue_cases [of raw] by (auto simp: word_le_def)
qed

section \<open>Percentage mapping\<close>

text \<open>
  Claim C2, as amended. The claim says that every raw input less than or equal to 220
  maps to 0 and every raw input greater than or equal to 941 maps to 100. The source
  compares strictly, so the thresholds themselves fall into the linear branch: 220 maps
  to 1 and 941 maps to 89. What holds: every raw input strictly below 220 maps to 0, and
  every raw input strictly above 941 maps to 100.
\<close>

theorem CalculateADCValue_clamps_strict:
  "(lo < 220 \<longrightarrow> CalculateADCValue lo = 0) \<and> (941 < hi \<longrightarrow> CalculateADCValue hi = 100)"
  by (simp add: word_less_def CalculateADCValue_low CalculateADCValue_high)

theorem CalculateADCValue_clamps_strict_witness:
  "(219 :: unsigned) < 220 \<and> CalculateADCValue 219 = 0
   \<and> (941 :: unsigned) < 942 \<and> CalculateADCValue 942 = 100"
  using CalculateADCValue_clamps_strict [of 219 942] by simp

text \<open>
  The counterexample to C2 as stated: at the lower threshold 220 the result is 1, not 0,
  and at the upper threshold 941 the result is 89, not 100.
\<close>

theorem CalculateADCValue_thresholds_counterexample:
  "(220 :: unsigned) \<le> 220 \<and> CalculateADCValue 220 = 1 \<and> CalculateADCValue 220 \<noteq> 0
   \<and> (941 :: unsigned) \<ge> 941 \<and> CalculateADCValue 941 = 89 \<and> CalculateADCValue 941 \<noteq> 100"
  by (simp add: CalculateADCValue_def functions_h_defs)

text \<open>
  Claim C7. For every raw input between the clamp thresholds (not below 220 and not above
  941) \<open>CalculateADCValue\<close> returns \<open>(raw - 205) * 100 / 818\<close> in integer division;
  the dividend is not negative there, so rounding down and truncating toward zero agree.
  The midpoint input 614 maps to 50.
\<close>

theorem CalculateADCValue_between_thresholds:
  "(220 \<le> raw \<and> raw \<le> 941 \<longrightarrow>
      0 \<le> (uint raw - 205) * 100
      \<and> uint (CalculateADCValue raw) = (uint raw - 205) * 100 div 818)
   \<and> int MIN_ADC_VALUE = 205 \<and> int ADC_RANGE_VALUE = 818
   \<and> CalculateADCValue 614 = 50"
proof -
  have "CalculateADCValue 614 = 50"
    by (simp add: CalculateADCValue_def functions_h_defs)
  moreover have "int MIN_ADC_VALUE = 205 \<and> int ADC_RANGE_VALUE = 818"
    by (simp add: functions_h_defs)
  moreover have "0 \<le> (uint raw - 205) * 100
      \<and> uint (CalculateADCValue raw) = (uint raw - 205) * 100 div 818"
    if "220 \<le> raw" and "raw \<le> 941"
    using that by (simp add: word_le_def CalculateADCValue_linear)
  ultimately show ?thesis by blast
qed

theorem CalculateADCValue_between_thresholds_witness:
  "(220 :: unsigned) \<le> 500 \<and> (500 :: unsigned) \<le> 941
   \<and> uint (CalculateADCValue 500) = (500 - 205) * 100 div 818
   \<and> CalculateADCValue 500 = 36"
proof -
  have "CalculateADCValue 500 = 36"
    by (simp add: CalculateADCValue_def functions_h_defs)
  then show ?thesis
    using CalculateADCValue_between_thresholds [of 500] by simp
qed

text \<open>
  Claim C8. \<open>CalculateADCValue\<close> is monotonic non-decreasing: for raw inputs
  \<open>a \<le> b\<close> the result for \<open>a\<close> is at most the result for \<open>b\<close>. This is proved for
  every 16-bit argument, which includes the ADC's range 0..1023. The source function
  reads nothing but its argument and the constants, so it is a function of the raw input
  alone: equal inputs give equal results.
\<close>

theorem CalculateADCValue_monotone:
  "(a \<le> b \<longrightarrow> CalculateADCValue a \<le> CalculateADCValue b)
   \<and> (c = d \<longrightarrow> CalculateADCValue c = CalculateADCValue d)"
  by (simp add: word_le_def CalculateADCValue_mono_uint)

theorem CalculateADCValue_monotone_witness:
  "(300 :: unsigned) \<le> 700 \<and> CalculateADCValue 300 \<le> CalculateADCValue 700
   \<and> (614 :: unsigned) = 614 \<and> CalculateADCValue 614 = CalculateADCValue 614"
  using CalculateADCValue_monotone [of 300 700 614 614] by simp

text \<open>
  Claim C10. For every raw input (in particular for every input in 0..1023) the result
  is at most 89 or exactly 100: no input gives a percentage in 90..99. The largest input
  that is not clamped to 100, raw = 941, maps to 89, and the next one, 942, to 100.
\<close>

theorem CalculateADCValue_no_90_to_99:
  "(CalculateADCValue raw \<le> 89 \<or> CalculateADCValue raw = 100)
   \<and> CalculateADCValue 941 = 89 \<and> CalculateADCValue 942 = 100"
proof -
  have "CalculateADCValue 941 = 89 \<and> CalculateADCValue 942 = 100"
    by (simp add: CalculateADCValue_def functions_h_defs)
  moreover have "CalculateADCValue raw \<le> 89 \<or> CalculateADCValue raw = 100"
    using CalculateADCValue_cases [of raw] by (simp add: word_le_def)
  ultimately show ?thesis by blast
qed

section \<open>Register value mapping\<close>

text \<open>
  Claim C5, as amended. The claim says that \<open>CalculateRegisterValue(divisor, duration)\<close>
  equals \<open>floor(4800000 * durationSeconds / divisor) - 1\<close>. The source returns a
  \<^verbatim>\<open>char\<close>, so only the low 8 bits of that number come back; they are read here as
  an unsigned byte, which is how they reach the 8-bit compare register. What holds: for every
  divisor other than 0 (the source divides by it) the result is the formula's value
  modulo 256; it is the formula's value itself whenever that lies in 0..255; and
  \<open>CalculateRegisterValue(8, 250) = 149\<close>, the pulse-width constant, and
  \<open>CalculateRegisterValue(64, 1000) = 74\<close>, the zero-cross compensation constant.
\<close>

theorem CalculateRegisterValue_formula_mod_256:
  "(prescaler \<noteq> 0 \<longrightarrow>
      uint (CalculateRegisterValue prescaler time)
        = compare_count_formula (unat prescaler) (unat time) mod 256)
   \<and> (divisor \<noteq> 0 \<and> 0 \<le> compare_count_formula (unat divisor) (unat duration)
        \<and> compare_count_formula (unat divisor) (unat duration) \<le> 255 \<longrightarrow>
      uint (CalculateRegisterValue divisor duration)
        = compare_count_formula (unat divisor) (unat duration))
   \<and> CalculateRegisterValue 8 250 = 149 \<and> compare_count_formula 8 250 = 149
   \<and> CalculateRegisterValue 64 1000 = 74 \<and> compare_count_formula 64 1000 = 74
   \<and> CalculateRegisterValue 8 250 = of_nat TRIGGER_PULSE_DURATION_PRESC_8
   \<and> CalculateRegisterValue 64 (of_nat ZERO_CROSS_DELAY_US)
        = of_nat ZERO_CROSS_DELAY_OCR0A_PRESC_64"
proof -
  have a: "uint (CalculateRegisterValue prescaler time)
        = compare_count_formula (unat prescaler) (unat time) mod 256"
    by (simp only: compare_count_formula_uint uint_CalculateRegisterValue)
  have b: "uint (CalculateRegisterValue divisor duration)
        = compare_count_formula (unat divisor) (unat duration)"
    if "0 \<le> compare_count_formula (unat divisor) (unat duration)"
      and "compare_count_formula (unat divisor) (unat duration) \<le> 255"
  proof -
    have "compare_count_formula (unat divisor) (unat duration) mod 256
            = compare_count_formula (unat divisor) (unat duration)"
      using that by (intro mod_pos_pos_trivial) simp_all
    then show ?thesis
      by (simp only: compare_count_formula_uint uint_CalculateRegisterValue)
  qed
  have c: "CalculateRegisterValue 8 250 = 149 \<and> CalculateRegisterValue 64 1000 = 74"
    by (simp add: CalculateRegisterValue_def CalculateRegisterValue_a_def)
  have d: "compare_count_formula 8 250 = 149 \<and> compare_count_formula 64 1000 = 74"
    by (simp add: compare_count_formula_div)
  have e: "CalculateRegisterValue 8 250 = of_nat TRIGGER_PULSE_DURATION_PRESC_8
     \<and> CalculateRegisterValue 64 (of_nat ZERO_CROSS_DELAY_US)
        = of_nat ZERO_CROSS_DELAY_OCR0A_PRESC_64"
    by (simp add: CalculateRegisterValue_def CalculateRegisterValue_a_def functions_h_defs)
  from a b c d e show ?thesis by blast
qed

theorem CalculateRegisterValue_formula_mod_256_witness:
  "(256 :: unsigned) \<noteq> 0
   \<and> uint (CalculateRegisterValue 256 60000) = compare_count_formula 256 60000 mod 256
   \<and> compare_count_formula 256 60000 = 1124 \<and> CalculateRegisterValue 256 60000 = 100
   \<and> (64 :: unsigned) \<noteq> 0 \<and> (0 :: int) \<le> compare_count_formula 64 1000
   \<and> compare_count_formula 64 1000 \<le> 255
   \<and> uint (CalculateRegisterValue 64 1000) = compare_count_formula 64 1000"
proof -
  have v: "compare_count_formula 256 60000 = 1124 \<and> compare_count_formula 64 1000 = 74"
    by (simp add: compare_count_formula_div)
  have w: "CalculateRegisterValue 256 60000 = 100"
    by (simp add: CalculateRegisterValue_def CalculateRegisterValue_a_def)
  show ?thesis
    using CalculateRegisterValue_formula_mod_256 [of 256 60000 64 1000] v w by simp
qed

text \<open>
  The counterexample to C5 as stated: for divisor 8 and 1000 microseconds the formula
  gives 599, and the source returns 599 modulo 256, which is 87.
\<close>

theorem CalculateRegisterValue_truncation_counterexample:
  "CalculateRegisterValue 8 1000 = 87 \<and> compare_count_formula 8 1000 = 599
   \<and> uint (CalculateRegisterValue 8 1000) \<noteq> compare_count_formula 8 1000"
  by (simp add: CalculateRegisterValue_def CalculateRegisterValue_a_def compare_count_formula_div)

section \<open>Delay and divisor selection\<close>

text \<open>
  Claim C1, as amended. The claim covers every percentage from 1 to 99. At 90 the delay
  is 0, the quotient is 0 and the subtraction of 1 wraps around, so the value before the
  cast is 4294967295 and the register receives 255. What holds: for every percentage
  \<open>p\<close> with \<open>1 \<le> p \<le> 89\<close>, \<open>SetWaitingPulse\<close> computes the delay, selects the
  prescaler by the thresholds 425 and 3400 and calls \<open>SetTimer\<close> with the value of
  \<open>CalculateRegisterValue\<close> for that prescaler and delay; the \<^verbatim>\<open>unsigned long\<close>
  value before the cast to \<^verbatim>\<open>char\<close> is at most 255, the cast does not change it, and
  it is the value of the specification's formula.
\<close>

theorem SetWaitingPulse_compare_in_range:
  "1 \<le> percent \<and> percent \<le> 89 \<longrightarrow>
     (let td = timeDelay percent;
          prescaler = (if td < 425 then 8 else if td < 3400 then 64 else 256)
      in SetWaitingPulse io percent s
           = SetTimer io prescaler (CalculateRegisterValue prescaler td) s
         \<and> uint (CalculateRegisterValue_a prescaler td) \<le> 255
         \<and> uint (CalculateRegisterValue prescaler td)
             = uint (CalculateRegisterValue_a prescaler td)
         \<and> uint (CalculateRegisterValue prescaler td)
             = compare_count_formula (unat prescaler) (unat td))"
proof
  assume h: "1 \<le> percent \<and> percent \<le> 89"
  then have u: "1 \<le> uint percent" "uint percent \<le> 89" by (simp_all add: word_le_def)
  then have ne: "percent \<noteq> 100" "percent \<noteq> 0" by auto
  show "let td = timeDelay percent;
          prescaler = (if td < 425 then 8 else if td < 3400 then 64 else 256)
      in SetWaitingPulse io percent s
           = SetTimer io prescaler (CalculateRegisterValue prescaler td) s
         \<and> uint (CalculateRegisterValue_a prescaler td) \<le> 255
         \<and> uint (CalculateRegisterValue prescaler td)
             = uint (CalculateRegisterValue_a prescaler td)
         \<and> uint (CalculateRegisterValue prescaler td)
             = compare_count_formula (unat prescaler) (unat td)"
    unfolding Let_def
    using SetWaitingPulse_general [OF ne, of io s] compare_in_range [OF u]
    by (simp only: Let_def)
qed

theorem SetWaitingPulse_compare_in_range_witness:
  "(1 :: unsigned) \<le> 50 \<and> (50 :: unsigned) \<le> 89
   \<and> SetWaitingPulse attiny13_bits 50 mcu0
        = SetTimer attiny13_bits 256 (CalculateRegisterValue 256 4000) mcu0
   \<and> uint (CalculateRegisterValue_a 256 4000) \<le> 255
   \<and> uint (CalculateRegisterValue 256 4000) = uint (CalculateRegisterValue_a 256 4000)"
proof -
  have td: "timeDelay 50 = 4000" by (simp add: timeDelay_def functions_h_defs)
  show ?thesis
    using SetWaitingPulse_compare_in_range [of 50 attiny13_bits mcu0]
    by (simp add: Let_def td)
qed

text \<open>
  The counterexample to C1 as stated, at percentage 90: the delay is 0, prescaler 8 is
  selected, the value before the cast is 4294967295, which is not in 0..255, and the
  cast truncates it to 255, where the formula gives -1.
\<close>

theorem SetWaitingPulse_90_counterexample:
  "(1 :: unsigned) \<le> 90 \<and> (90 :: unsigned) \<le> 99
   \<and> timeDelay 90 = 0 \<and> timeDelay 90 < 425
   \<and> SetWaitingPulse attiny13_bits 90 mcu0
        = SetTimer attiny13_bits 8 (CalculateRegisterValue 8 (timeDelay 90)) mcu0
   \<and> CalculateRegisterValue_a 8 (timeDelay 90) = 4294967295
   \<and> \<not> uint (CalculateRegisterValue_a 8 (timeDelay 90)) \<le> 255
   \<and> CalculateRegisterValue 8 (timeDelay 90) = 255
   \<and> compare_count_formula 8 0 = - 1"
proof -
  have td: "timeDelay 90 = 0" by (simp add: timeDelay_def functions_h_defs)
  have a: "CalculateRegisterValue_a 8 0 = 4294967295"
    by (simp add: CalculateRegisterValue_a_def)
  have b: "CalculateRegisterValue 8 0 = 255"
    unfolding CalculateRegisterValue_def a by simp
  have c: "\<not> uint (4294967295 :: ulong) \<le> 255" by simp
  have d: "SetWaitingPulse attiny13_bits 90 mcu0
        = SetTimer attiny13_bits 8 (CalculateRegisterValue 8 0) mcu0"
    by (simp add: SetWaitingPulse_def td)
  have e: "compare_count_formula 8 0 = - 1" by (simp add: compare_count_formula_div)
  show ?thesis using c by (simp add: td a b d e)
qed

text \<open>
  Claim C4, as amended. The claim gives 3900 microseconds for 50 percent and states the
  delay formula for every percentage below 100. The source computes
  \<open>10000 - (100 * 50 + 1000) = 4000\<close> for 50 percent, and above 90 percent the 16-bit
  subtraction wraps around. What holds: for every percentage \<open>p\<close> with \<open>0 < p \<le> 90\<close>
  the delay is \<open>10000 - ((10000 / 100) * p + 1000)\<close> microseconds, and
  \<open>SetWaitingPulse\<close> calls \<open>SetTimer\<close> with prescaler 8 when the delay is below 425,
  with 64 when it is at least 425 and below 3400, and with 256 otherwise; for 50 percent
  the delay is 4000 microseconds and prescaler 256 is selected.
\<close>

theorem SetWaitingPulse_delay_and_divisor:
  "(0 < percent \<and> percent \<le> 90 \<longrightarrow>
     (let td = timeDelay percent;
          prescaler = (if td < 425 then 8 else if td < 3400 then 64 else 256)
      in uint td = 10000 - ((10000 div 100) * uint percent + 1000)
         \<and> SetWaitingPulse io percent s
             = SetTimer io prescaler (CalculateRegisterValue prescaler td) s))
   \<and> timeDelay 50 = 4000
   \<and> SetWaitingPulse io 50 s = SetTimer io 256 (CalculateRegisterValue 256 4000) s"
proof -
  have td: "timeDelay 50 = 4000" by (simp add: timeDelay_def functions_h_defs)
  have fifty: "SetWaitingPulse io 50 s = SetTimer io 256 (CalculateRegisterValue 256 4000) s"
    by (simp add: SetWaitingPulse_def td)
  have gen: "let td = timeDelay percent;
          prescaler = (if td < 425 then 8 else if td < 3400 then 64 else 256)
      in uint td = 10000 - ((10000 div 100) * uint percent + 1000)
         \<and> SetWaitingPulse io percent s
             = SetTimer io prescaler (CalculateRegisterValue prescaler td) s"
    if h: "0 < percent \<and> percent \<le> 90"
  proof -
    from h have u: "0 < uint percent" "uint percent \<le> 90"
      by (simp_all add: word_le_def word_less_def)
    then have ne: "percent \<noteq> 100" "percent \<noteq> 0" by auto
    show ?thesis
      unfolding Let_def
      using SetWaitingPulse_general [OF ne, of io s] uint_timeDelay [OF u(2)]
      by (simp only: Let_def)
  qed
  from td fifty gen show ?thesis by blast
qed

theorem SetWaitingPulse_delay_and_divisor_witness:
  "(0 :: unsigned) < 86 \<and> (86 :: unsigned) \<le> 90
   \<and> uint (timeDelay 86) = 10000 - ((10000 div 100) * 86 + 1000)
   \<and> timeDelay 86 = 400
   \<and> SetWaitingPulse attiny13_bits 86 mcu0
       = SetTimer attiny13_bits 8 (CalculateRegisterValue 8 400) mcu0"
proof -
  have td: "timeDelay 86 = 400" by (simp add: timeDelay_def functions_h_defs)
  show ?thesis
    using SetWaitingPulse_delay_and_divisor [of 86 attiny13_bits mcu0]
    by (simp add: Let_def td)
qed

text \<open>
  The counterexample to C4 as stated. At 50 percent the delay is 4000, not 3900. At 91
  percent the formula gives -100, which is below 425, while the source computes 65436 in
  16-bit arithmetic and selects prescaler 256, not 8.
\<close>

theorem SetWaitingPulse_delay_counterexample:
  "timeDelay 50 = 4000 \<and> timeDelay 50 \<noteq> 3900
   \<and> (10000 :: int) - ((10000 div 100) * 50 + 1000) \<noteq> 3900
   \<and> (0 :: unsigned) < 91 \<and> (91 :: unsigned) < 100
   \<and> timeDelay 91 = 65436
   \<and> uint (timeDelay 91) \<noteq> 10000 - ((10000 div 100) * 91 + 1000)
   \<and> (10000 :: int) - ((10000 div 100) * 91 + 1000) < 425
   \<and> SetWaitingPulse attiny13_bits 91 mcu0
       = SetTimer attiny13_bits 256 (CalculateRegisterValue 256 65436) mcu0
   \<and> SetWaitingPulse attiny13_bits 91 mcu0
       \<noteq> SetTimer attiny13_bits 8 (CalculateRegisterValue 8 65436) mcu0"
proof -
  have td: "timeDelay 50 = 4000" "timeDelay 91 = 65436"
    by (simp_all add: timeDelay_def functions_h_defs)
  have sel: "SetWaitingPulse attiny13_bits 91 mcu0
       = SetTimer attiny13_bits 256 (CalculateRegisterValue 256 65436) mcu0"
    by (simp add: SetWaitingPulse_def td)
  have "TCCR0B (SetTimer attiny13_bits 256 v mcu0) = 4"
    and "TCCR0B (SetTimer attiny13_bits 8 w mcu0) = 2" for v w
    by (simp_all add: SetTimer_def TIMER_STOP_def TIMER_INT_OFF_def attiny13_bits_def
        mcu0_def Let_def)
  then have "TCCR0B (SetTimer attiny13_bits 256 v mcu0)
      \<noteq> TCCR0B (SetTimer attiny13_bits 8 w mcu0)" for v w
    by simp
  then have ne: "SetTimer attiny13_bits 256 v mcu0 \<noteq> SetTimer attiny13_bits 8 w mcu0" for v w
    by metis
  show ?thesis using ne by (simp add: td sel)
qed

section \<open>Event handlers\<close>

text \<open>
  Claim C3. The two-state controller, for every assignment of the bit numbers that keeps
  them inside the 8-bit registers and keeps the three clock-select bits apart. A timer
  expiry in state \<open>WAITING_FOR_TRIGGER\<close> (AwaitingFire) asserts the output, moves to
  \<open>SWITCHING\<close> (Firing) and re-arms the timer: clock-select bits \<^verbatim>\<open>0 1 0\<close>
  (prescaler 8), compare register 149 counts ahead of the counter, compare interrupt
  enabled. A timer expiry in state \<open>SWITCHING\<close> de-asserts the output, leaves the state
  \<open>SWITCHING\<close> and changes nothing but \<open>PORTB\<close>. A zero-cross event, from any state,
  de-asserts the output and sets the state to \<open>WAITING_FOR_TRIGGER\<close>.
\<close>

theorem controller_state_machine:
  "io_bits_ok io \<longrightarrow>
     (state s1 = WAITING_FOR_TRIGGER \<longrightarrow>
        (let s' = ISR_TIM0_COMPA io s1
         in optotriac_on io s' \<and> state s' = SWITCHING
            \<and> clock_select io s' = (False, True, False)
            \<and> OCR0A s' = TCNT0 s1 + 149
            \<and> timer_int_enabled io s'))
     \<and> (state s2 = SWITCHING \<longrightarrow>
        (let s' = ISR_TIM0_COMPA io s2
         in \<not> optotriac_on io s' \<and> state s' = SWITCHING
            \<and> s' = s2\<lparr>PORTB := PORTB s'\<rparr>))
     \<and> (let s' = ISR_INT0 io s3
         in \<not> optotriac_on io s' \<and> state s' = WAITING_FOR_TRIGGER)"
proof
  assume ok: "io_bits_ok io"
  then have pb: "PB0 io < 8" and oc: "OCIE0A io < 8" by (simp_all add: io_bits_ok_def)
  have a: "let s' = ISR_TIM0_COMPA io s1
         in optotriac_on io s' \<and> state s' = SWITCHING
            \<and> clock_select io s' = (False, True, False)
            \<and> OCR0A s' = TCNT0 s1 + 149
            \<and> timer_int_enabled io s'"
    if w: "state s1 = WAITING_FOR_TRIGGER"
  proof -
    have e: "ISR_TIM0_COMPA io s1 = SetTimer io 8 149 ((OPTOTRIAC_ON io s1)\<lparr>state := SWITCHING\<rparr>)"
      using w by (simp add: ISR_TIM0_COMPA_def Let_def)
    have "optotriac_on io (ISR_TIM0_COMPA io s1)"
      using OPTOTRIAC_ON_on [OF pb, of s1]
      by (simp add: e optotriac_on_def SetTimer_frame)
    moreover have "state (ISR_TIM0_COMPA io s1) = SWITCHING"
      by (simp add: e SetTimer_frame)
    moreover have "clock_select io (ISR_TIM0_COMPA io s1) = (False, True, False)"
      by (simp only: e SetTimer_clock_select [OF ok])
    moreover have "OCR0A (ISR_TIM0_COMPA io s1) = TCNT0 s1 + 149"
      by (simp add: e SetTimer_OCR0A OPTOTRIAC_ON_def)
    moreover have "timer_int_enabled io (ISR_TIM0_COMPA io s1)"
      by (simp only: e SetTimer_int_enabled [OF oc])
    ultimately show ?thesis by (simp add: Let_def)
  qed
  have b: "let s' = ISR_TIM0_COMPA io s2
         in \<not> optotriac_on io s' \<and> state s' = SWITCHING \<and> s' = s2\<lparr>PORTB := PORTB s'\<rparr>"
    if f: "state s2 = SWITCHING"
  proof -
    have e: "ISR_TIM0_COMPA io s2 = OPTOTRIAC_OFF io s2"
      using f by (simp add: ISR_TIM0_COMPA_def)
    show ?thesis
      using OPTOTRIAC_OFF_off [of io s2] f
      by (simp add: e Let_def) (simp add: OPTOTRIAC_OFF_def)
  qed
  have c: "let s' = ISR_INT0 io s3
         in \<not> optotriac_on io s' \<and> state s' = WAITING_FOR_TRIGGER"
    by (simp add: Let_def ISR_INT0_output_state)
  from a b c
  show "(state s1 = WAITING_FOR_TRIGGER \<longrightarrow>
        (let s' = ISR_TIM0_COMPA io s1
         in optotriac_on io s' \<and> state s' = SWITCHING
            \<and> clock_select io s' = (False, True, False)
            \<and> OCR0A s' = TCNT0 s1 + 149
            \<and> timer_int_enabled io s'))
     \<and> (state s2 = SWITCHING \<longrightarrow>
        (let s' = ISR_TIM0_COMPA io s2
         in \<not> optotriac_on io s' \<and> state s' = SWITCHING
            \<and> s' = s2\<lparr>PORTB := PORTB s'\<rparr>))
     \<and> (let s' = ISR_INT0 io s3
         in \<not> optotriac_on io s' \<and> state s' = WAITING_FOR_TRIGGER)"
    by blast
qed

theorem controller_state_machine_witness:
  "io_bits_ok attiny13_bits
   \<and> state mcu0 = WAITING_FOR_TRIGGER
   \<and> optotriac_on attiny13_bits (ISR_TIM0_COMPA attiny13_bits mcu0)
   \<and> state (ISR_TIM0_COMPA attiny13_bits mcu0) = SWITCHING
   \<and> clock_select attiny13_bits (ISR_TIM0_COMPA attiny13_bits mcu0) = (False, True, False)
   \<and> OCR0A (ISR_TIM0_COMPA attiny13_bits mcu0) = 156
   \<and> state mcu1 = SWITCHING
   \<and> optotriac_on attiny13_bits mcu1
   \<and> \<not> optotriac_on attiny13_bits (ISR_TIM0_COMPA attiny13_bits mcu1)
   \<and> state (ISR_TIM0_COMPA attiny13_bits mcu1) = SWITCHING
   \<and> \<not> optotriac_on attiny13_bits (ISR_INT0 attiny13_bits mcu1)
   \<and> state (ISR_INT0 attiny13_bits mcu1) = WAITING_FOR_TRIGGER"
proof -
  have ok: "io_bits_ok attiny13_bits"
    by (simp add: io_bits_ok_def attiny13_bits_def)
  have st: "state mcu0 = WAITING_FOR_TRIGGER" "state mcu1 = SWITCHING" "TCNT0 mcu0 = 7"
    "optotriac_on attiny13_bits mcu1"
    by (simp_all add: mcu0_def mcu1_def optotriac_on_def attiny13_bits_def)
  show ?thesis
    using controller_state_machine [of attiny13_bits mcu0 mcu1 mcu1] ok st
    by (simp add: Let_def)
qed

text \<open>
  Claim C6. \<open>SetWaitingPulse(100)\<close> does not use the delay formula: it is
  \<open>SetTimer(64, 74)\<close>, which selects clock bits \<^verbatim>\<open>0 1 1\<close> (prescaler 64), sets the
  compare register 74 counts ahead of the counter and enables the compare interrupt; 74
  is the constant \<^verbatim>\<open>ZERO_CROSS_DELAY_OCR0A_PRESC_64\<close> and the register value of the
  1000 microsecond zero-cross compensation delay at prescaler 64.
  \<open>SetWaitingPulse(0)\<close> disables the compare interrupt and clears the three clock-select
  bits, which stops the timer, and changes no other register, so no compare value is
  programmed.
\<close>

theorem SetWaitingPulse_special_cases:
  "io_bits_ok io \<longrightarrow>
     (let s' = SetWaitingPulse io 100 s
      in s' = SetTimer io 64 74 s
         \<and> clock_select io s' = (False, True, True)
         \<and> OCR0A s' = TCNT0 s + 74
         \<and> timer_int_enabled io s')
     \<and> (let s' = SetWaitingPulse io 0 s
        in \<not> timer_int_enabled io s'
           \<and> clock_select io s' = (False, False, False)
           \<and> s' = s\<lparr>TCCR0B := TCCR0B s', TIMSK0 := TIMSK0 s'\<rparr>)
     \<and> (74 :: char8) = of_nat ZERO_CROSS_DELAY_OCR0A_PRESC_64
     \<and> CalculateRegisterValue 64 (of_nat ZERO_CROSS_DELAY_US) = 74"
proof
  assume ok: "io_bits_ok io"
  then have oc: "OCIE0A io < 8" by (simp add: io_bits_ok_def)
  have e: "SetWaitingPulse io 100 s = SetTimer io 64 74 s"
    by (simp add: SetWaitingPulse_def functions_h_defs)
  have a: "let s' = SetWaitingPulse io 100 s
      in s' = SetTimer io 64 74 s
         \<and> clock_select io s' = (False, True, True)
         \<and> OCR0A s' = TCNT0 s + 74
         \<and> timer_int_enabled io s'"
    unfolding Let_def
    by (simp only: e SetTimer_clock_select [OF ok] SetTimer_OCR0A SetTimer_int_enabled [OF oc])
  have z: "SetWaitingPulse io 0 s = TIMER_STOP io (TIMER_INT_OFF io s)"
    by (simp add: SetWaitingPulse_def)
  have b1: "\<not> timer_int_enabled io (SetWaitingPulse io 0 s)"
    by (simp add: z timer_int_enabled_def TIMER_STOP_def TIMER_INT_OFF_def
        bit_and_iff bit_not_iff bit_exp_reg8 bit_imp_possible_bit possible_bit_word)
  have b2: "clock_select io (SetWaitingPulse io 0 s) = (False, False, False)"
    by (simp only: z TIMER_STOP_clock_select)
  have b3: "SetWaitingPulse io 0 s
      = s\<lparr>TCCR0B := TCCR0B (SetWaitingPulse io 0 s), TIMSK0 := TIMSK0 (SetWaitingPulse io 0 s)\<rparr>"
    by (simp add: z TIMER_STOP_def TIMER_INT_OFF_def)
  have c: "(74 :: char8) = of_nat ZERO_CROSS_DELAY_OCR0A_PRESC_64
     \<and> CalculateRegisterValue 64 (of_nat ZERO_CROSS_DELAY_US) = 74"
    by (simp add: functions_h_defs CalculateRegisterValue_def CalculateRegisterValue_a_def)
  from a b1 b2 b3 c
  show "(let s' = SetWaitingPulse io 100 s
      in s' = SetTimer io 64 74 s
         \<and> clock_select io s' = (False, True, True)
         \<and> OCR0A s' = TCNT0 s + 74
         \<and> timer_int_enabled io s')
     \<and> (let s' = SetWaitingPulse io 0 s
        in \<not> timer_int_enabled io s'
           \<and> clock_select io s' = (False, False, False)
           \<and> s' = s\<lparr>TCCR0B := TCCR0B s', TIMSK0 := TIMSK0 s'\<rparr>)
     \<and> (74 :: char8) = of_nat ZERO_CROSS_DELAY_OCR0A_PRESC_64
     \<and> CalculateRegisterValue 64 (of_nat ZERO_CROSS_DELAY_US) = 74"
    unfolding Let_def by blast
qed

theorem SetWaitingPulse_special_cases_witness:
  "io_bits_ok attiny13_bits
   \<and> clock_select attiny13_bits (SetWaitingPulse attiny13_bits 100 mcu1) = (False, True, True)
   \<and> OCR0A (SetWaitingPulse attiny13_bits 100 mcu1) = 230
   \<and> timer_int_enabled attiny13_bits mcu1
   \<and> \<not> timer_int_enabled attiny13_bits (SetWaitingPulse attiny13_bits 0 mcu1)
   \<and> clock_select attiny13_bits mcu1 = (False, True, False)
   \<and> clock_select attiny13_bits (SetWaitingPulse attiny13_bits 0 mcu1) = (False, False, False)"
proof -
  have ok: "io_bits_ok attiny13_bits"
    by (simp add: io_bits_ok_def attiny13_bits_def)
  have st: "TCNT0 mcu1 = 156" "timer_int_enabled attiny13_bits mcu1"
    "clock_select attiny13_bits mcu1 = (False, True, False)"
    by (simp_all add: mcu1_def timer_int_enabled_def clock_select_def attiny13_bits_def)
  show ?thesis
    using SetWaitingPulse_special_cases [of attiny13_bits mcu1] ok st
    by (auto simp: Let_def)
qed

text \<open>
  Claim C9. The ADC completion handler reads \<^verbatim>\<open>ADCL\<close> first and \<^verbatim>\<open>ADCH\<close> second,
  stores \<open>256 * ADCH + ADCL\<close> in \<open>ADCResult\<close>, and changes nothing else: the
  controller state, the timer registers and the output port are as before.
\<close>

theorem ISR_ADC_latches_sample:
  "ISR_ADC s = s\<lparr>ADCResult := push_bit 8 (ucast (ADCH s)) + ucast (ADCL s),
                 adc_reads := adc_reads s @ [Reg_ADCL, Reg_ADCH]\<rparr>
   \<and> unat (ADCResult (ISR_ADC s)) = 256 * unat (ADCH s) + unat (ADCL s)
   \<and> adc_reads (ISR_ADC s) = adc_reads s @ [Reg_ADCL, Reg_ADCH]
   \<and> state (ISR_ADC s) = state s
   \<and> PORTB (ISR_ADC s) = PORTB s
   \<and> TCCR0B (ISR_ADC s) = TCCR0B s
   \<and> TIMSK0 (ISR_ADC s) = TIMSK0 s
   \<and> TIFR0 (ISR_ADC s) = TIFR0 s
   \<and> OCR0A (ISR_ADC s) = OCR0A s
   \<and> ADCResult (ISR_ADC mcu0) = 614"
proof -
  have e: "ISR_ADC s = s\<lparr>ADCResult := push_bit 8 (ucast (ADCH s)) + ucast (ADCL s),
                 adc_reads := adc_reads s @ [Reg_ADCL, Reg_ADCH]\<rparr>"
    by (simp add: ISR_ADC_def read_ADCL_def read_ADCH_def Let_def)
  have "ADCResult (ISR_ADC s) = push_bit 8 (ucast (ADCH s)) + ucast (ADCL s)"
    by (simp add: ISR_ADC_def read_ADCL_def read_ADCH_def Let_def)
  then have v: "unat (ADCResult (ISR_ADC s)) = 256 * unat (ADCH s) + unat (ADCL s)"
    by (simp only: unat_ADC_assemble)
  have k: "ADCResult (ISR_ADC mcu0) = 614"
    by (simp add: ISR_ADC_def read_ADCL_def read_ADCH_def Let_def mcu0_def)
  have f: "adc_reads (ISR_ADC s) = adc_reads s @ [Reg_ADCL, Reg_ADCH]
   \<and> state (ISR_ADC s) = state s
   \<and> PORTB (ISR_ADC s) = PORTB s
   \<and> TCCR0B (ISR_ADC s) = TCCR0B s
   \<and> TIMSK0 (ISR_ADC s) = TIMSK0 s
   \<and> TIFR0 (ISR_ADC s) = TIFR0 s
   \<and> OCR0A (ISR_ADC s) = OCR0A s"
    by (simp add: e)
  from e v k f show ?thesis by blast
qed

end
